theory Spec2Isabelle
  imports Main "HOL-Library.Mapping" "HOL-Library.AList_Mapping" "HOL-Library.Multiset"
begin

section \<open>The Irita service subscriber (core/services/irita_subscriber.go)\<close>

text \<open>
  A shallow embedding of \<^verbatim>\<open>IritaServiceTracker\<close> and \<^verbatim>\<open>Service\<close>.
  Every method becomes a function from the state before the call to the state after it
  (and the value returned). The calls a method makes on its collaborators (the Irita
  client, the run manager, the logger, the in-memory request store, the Prometheus gauge)
  are recorded in the state, in the order they are made, so that a statement about
  "how many times" or "with which argument" is a statement about a list.
\<close>

subsection \<open>Data\<close>

text \<open>
  \<^verbatim>\<open>types.Subscription\<close> is an opaque handle handed out by the client,
  \<^verbatim>\<open>service.QueryServiceRequestResponse\<close> an opaque payload, a run identifier a
  string. \<^verbatim>\<open>time.Time\<close> is a point on the integer time line.
\<close>

type_synonym Subscription = nat
type_synonym QueryServiceRequestResponse = string
type_synonym RunID = string
type_synonym Time = int

text \<open>The fields of \<^verbatim>\<open>models.Initiator\<close> that the subscriber reads.\<close>

record Initiator =
  Type :: string
  IritaServiceName :: string
  IritaServiceProvider :: string

text \<open>
  The fields of \<^verbatim>\<open>models.JobSpec\<close> that the subscriber reads; \<^verbatim>\<open>ID\<close> holds
  \<^verbatim>\<open>job.ID.String()\<close>, the key of the registry. A null time is \<open>None\<close>.
\<close>

record JobSpec =
  ID :: string
  Initiators :: "Initiator list"
  StartAt :: "Time option"
  EndAt :: "Time option"

text \<open>
  Modelled from the spec: \<^verbatim>\<open>JobSpec.Started\<close>, \<^verbatim>\<open>JobSpec.Ended\<close> and
  \<^verbatim>\<open>JobSpec.InitiatorsFor\<close> live in core/store/models, which is not among the
  sources. The activity window is a pair of optional timestamps ("optionally
  open-ended"): a job with no start has started, a job with no end has not ended.
  \<^verbatim>\<open>InitiatorsFor\<close> keeps the initiators of the given kind, in order. The string
  behind the constant \<^verbatim>\<open>models.InitiatorIritaLog\<close> is not among the sources either;
  the initiators of the examples below carry the same string.
\<close>

definition InitiatorIritaLog :: string where
  "InitiatorIritaLog = ''iritalog''"

definition Started :: "JobSpec \<Rightarrow> Time \<Rightarrow> bool" where
  "Started j t = (case StartAt j of None \<Rightarrow> True | Some st \<Rightarrow> st \<le> t)"

definition Ended :: "JobSpec \<Rightarrow> Time \<Rightarrow> bool" where
  "Ended j t = (case EndAt j of None \<Rightarrow> False | Some en \<Rightarrow> en < t)"

definition InitiatorsFor :: "JobSpec \<Rightarrow> string \<Rightarrow> Initiator list" where
  "InitiatorsFor j ty = filter (\<lambda>initr. Type initr = ty) (Initiators j)"

text \<open>
  A Go channel that is only ever made, closed and selected on: \<^verbatim>\<open>done\<close> is
  \<^verbatim>\<open>nil\<close> until \<^verbatim>\<open>Service.Start\<close> makes it.
\<close>

datatype chan = ChanNil | ChanOpen | ChanClosed

datatype error =
    AlreadyStarted
  | JobNotFound string
  | StoreError string
  | Panic string

text \<open>
  \<^verbatim>\<open>Service\<close>: the two fields that the methods mutate (\<open>jobSubscriptions\<close> and
  \<open>done\<close>, here \<open>done_ch\<close>), followed by what the methods do to the world outside
  the struct:
  \<^item> \<open>numberJobSubscriptions\<close>: the value last \<^verbatim>\<open>Set\<close> on the package-level gauge;
  \<^item> \<open>Unsubscribed\<close>: the arguments of the calls to \<^verbatim>\<open>Client.Unsubscribe\<close>;
  \<^item> \<open>Created\<close>: the arguments of the calls to \<^verbatim>\<open>RunManager.Create\<close>;
  \<^item> \<open>Memory\<close>: the arguments of the calls to \<^verbatim>\<open>store.AddToMemory\<close>;
  \<^item> \<open>Logged\<close>: the messages given to \<^verbatim>\<open>logger.Error\<close>;
  \<^item> \<open>Spawned\<close>: the goroutines started with \<^verbatim>\<open>go s.Subscribe(initiator, job)\<close>.
\<close>

record Service =
  jobSubscriptions :: "(string, Subscription) mapping"
  done_ch :: chan
  numberJobSubscriptions :: nat
  Unsubscribed :: "Subscription list"
  Created :: "(string \<times> Initiator) list"
  Memory :: "(RunID \<times> QueryServiceRequestResponse \<times> string) list"
  Logged :: "string list"
  Spawned :: "(Initiator \<times> JobSpec) list"

record IritaServiceTracker =
  Service :: Service
  started :: bool

text \<open>\<^verbatim>\<open>NewIritaServiceTracker\<close>: an empty registry, no channel, not started.\<close>

definition NewService :: Service where
  "NewService = \<lparr> jobSubscriptions = Mapping.empty, done_ch = ChanNil,
     numberJobSubscriptions = 0, Unsubscribed = [], Created = [], Memory = [],
     Logged = [], Spawned = [] \<rparr>"

definition NewIritaServiceTracker :: IritaServiceTracker where
  "NewIritaServiceTracker = \<lparr> Service = NewService, started = False \<rparr>"

subsection \<open>The registry: \<^verbatim>\<open>addSubscription\<close> and \<^verbatim>\<open>Service.RemoveJob\<close>\<close>

text \<open>
  \<^verbatim>\<open>s.jobSubscriptions[jobID.String()] = sub\<close>, under the lock. Nothing else: the
  gauge is not set here.
\<close>

definition addSubscription :: "string \<Rightarrow> Subscription \<Rightarrow> Service \<Rightarrow> Service" where
  "addSubscription jobID sub s =
     s\<lparr>jobSubscriptions := Mapping.update jobID sub (jobSubscriptions s)\<rparr>"

text \<open>
  \<^verbatim>\<open>Service.RemoveJob\<close>: read the entry, delete the key, set the gauge to the
  length of the map; then, outside the lock, fail when the entry was absent, and
  otherwise unsubscribe the handle that was read. The error of \<^verbatim>\<open>Unsubscribe\<close> is
  discarded. The result is the returned error (\<open>None\<close> for \<^verbatim>\<open>nil\<close>) and the state.
\<close>

definition Service_RemoveJob :: "string \<Rightarrow> Service \<Rightarrow> error option \<times> Service" where
  "Service_RemoveJob jid s =
     (let found = Mapping.lookup (jobSubscriptions s) jid;
          s1 = s\<lparr>jobSubscriptions := Mapping.delete jid (jobSubscriptions s)\<rparr>;
          s2 = s1\<lparr>numberJobSubscriptions := Mapping.size (jobSubscriptions s1)\<rparr>
      in case found of
           None \<Rightarrow> (Some (JobNotFound jid), s2)
         | Some sub \<Rightarrow> (None, s2\<lparr>Unsubscribed := Unsubscribed s2 @ [sub]\<rparr>))"

subsection \<open>\<^verbatim>\<open>Service\<close>: start, stop, add a job\<close>

text \<open>\<^verbatim>\<open>s.done = make(chan struct{})\<close>; the error returned is always \<^verbatim>\<open>nil\<close>.\<close>

definition Service_Start :: "Service \<Rightarrow> error option \<times> Service" where
  "Service_Start s = (None, s\<lparr>done_ch := ChanOpen\<rparr>)"

text \<open>
  \<^verbatim>\<open>close(s.done)\<close>. Go panics when the channel is \<^verbatim>\<open>nil\<close> and when it is
  closed already.
\<close>

definition Service_Stop :: "Service \<Rightarrow> error + Service" where
  "Service_Stop s =
     (case done_ch s of
        ChanNil \<Rightarrow> Inl (Panic ''close of nil channel'')
      | ChanClosed \<Rightarrow> Inl (Panic ''close of closed channel'')
      | ChanOpen \<Rightarrow> Inr (s\<lparr>done_ch := ChanClosed\<rparr>))"

text \<open>
  \<^verbatim>\<open>Service.AddJob\<close> starts one goroutine for each Irita-log initiator of the job and
  returns; what a goroutine does is \<open>Subscribe\<close> below.
\<close>

definition Service_AddJob :: "JobSpec \<Rightarrow> Service \<Rightarrow> Service" where
  "Service_AddJob job s =
     s\<lparr>Spawned := Spawned s @ map (\<lambda>initiator. (initiator, job)) (InitiatorsFor job InitiatorIritaLog)\<rparr>"

subsection \<open>The tracker\<close>

definition addJob :: "JobSpec \<Rightarrow> IritaServiceTracker \<Rightarrow> IritaServiceTracker" where
  "addJob job ist = ist\<lparr>Service := Service_AddJob job (Service ist)\<rparr>"

text \<open>
  \<^verbatim>\<open>IritaServiceTracker.Start\<close>. The store is a collaborator: \<open>jobs\<close> are the job
  specs that \<^verbatim>\<open>store.Jobs\<close> hands to the callback (which always answers
  \<^verbatim>\<open>true\<close>), and \<open>storeErr\<close> is what \<^verbatim>\<open>store.Jobs\<close> returns.
\<close>

definition Start :: "JobSpec list \<Rightarrow> error option \<Rightarrow> IritaServiceTracker \<Rightarrow> error option \<times> IritaServiceTracker" where
  "Start jobs storeErr ist =
     (if started ist then (Some AlreadyStarted, ist)
      else case Service_Start (Service ist) of
             (Some err, s1) \<Rightarrow> (Some err, ist\<lparr>Service := s1\<rparr>)
           | (None, s1) \<Rightarrow>
               (storeErr, foldl (\<lambda>t j. addJob j t) (ist\<lparr>Service := s1, started := True\<rparr>) jobs))"

text \<open>
  \<^verbatim>\<open>IritaServiceTracker.Stop\<close> returns nothing; the result is \<open>Inl\<close> when the
  call panics and the state after the call otherwise.
\<close>

definition Stop :: "IritaServiceTracker \<Rightarrow> error + IritaServiceTracker" where
  "Stop ist =
     (if started ist then
        (case Service_Stop (Service ist) of
           Inl p \<Rightarrow> Inl p
         | Inr s1 \<Rightarrow> Inr (ist\<lparr>Service := s1, started := False\<rparr>))
      else Inr ist)"

definition AddJob :: "JobSpec \<Rightarrow> IritaServiceTracker \<Rightarrow> IritaServiceTracker" where
  "AddJob job ist = (if \<not> started ist then ist else addJob job ist)"

definition RemoveJob :: "string \<Rightarrow> IritaServiceTracker \<Rightarrow> error option \<times> IritaServiceTracker" where
  "RemoveJob jid ist =
     (case Service_RemoveJob jid (Service ist) of (err, s1) \<Rightarrow> (err, ist\<lparr>Service := s1\<rparr>))"

subsection \<open>The worker: \<^verbatim>\<open>Service.Subscribe\<close>\<close>

text \<open>
  One turn of the \<^verbatim>\<open>select\<close> statement takes one of its two cases. The Go
  runtime chooses, among the cases that are ready; the list of its choices is the input
  of the loop.
  \<^item> \<open>RecvRequest request now res\<close>: \<^verbatim>\<open>request := <-ch\<close> was taken; \<open>now\<close> is what
    \<^verbatim>\<open>time.Now()\<close> answers in this turn and \<open>res\<close> what \<^verbatim>\<open>RunManager.Create\<close>
    answers if it is called in this turn (\<open>Inl\<close> the error, \<open>Inr\<close> the identifier of
    the run);
  \<^item> \<open>RecvDone\<close>: \<^verbatim>\<open><-s.done\<close> was taken, which Go allows once the channel is closed,
    and from then on in every turn.
  When the list is exhausted the goroutine is waiting in \<^verbatim>\<open>select\<close>: \<open>Looping\<close>.
  \<open>Returned\<close> says that the function has returned and the goroutine is gone.
\<close>

datatype select_case =
    RecvRequest QueryServiceRequestResponse Time "string + RunID"
  | RecvDone

datatype loop_status = Looping | Returned

fun Subscribe_loop ::
  "JobSpec \<Rightarrow> Initiator \<Rightarrow> Subscription \<Rightarrow> select_case list \<Rightarrow> Service \<Rightarrow> loop_status \<times> Service"
where
  "Subscribe_loop job initiator sub [] s = (Looping, s)"
| "Subscribe_loop job initiator sub (RecvRequest request now res # sel) s =
     (if \<not> Started job now \<or> Ended job now then (Returned, s)
      else
        let s1 = s\<lparr>Created := Created s @ [(ID job, initiator)]\<rparr> in
        case res of
          Inl err \<Rightarrow> (Returned, s1\<lparr>Logged := Logged s1 @ [err]\<rparr>)
        | Inr jobRun \<Rightarrow>
            Subscribe_loop job initiator sub sel
              (s1\<lparr>Memory := Memory s1 @ [(jobRun, request, IritaServiceProvider initiator)]\<rparr>))"
| "Subscribe_loop job initiator sub (RecvDone # sel) s =
     Subscribe_loop job initiator sub sel (s\<lparr>Unsubscribed := Unsubscribed s @ [sub]\<rparr>)"

text \<open>
  \<^verbatim>\<open>Service.Subscribe\<close>: \<open>opened\<close> is what \<^verbatim>\<open>Client.SubscribeNewBlock\<close> answers
  (\<open>Inl\<close> the error, on which the function panics). The handle is put into the registry
  under the identifier of the job, and the loop starts.
\<close>

definition Subscribe ::
  "(string + Subscription) \<Rightarrow> select_case list \<Rightarrow> Initiator \<Rightarrow> JobSpec \<Rightarrow> Service \<Rightarrow> error + (loop_status \<times> Service)"
where
  "Subscribe opened sel initiator job s =
     (case opened of
        Inl err \<Rightarrow> Inl (Panic err)
      | Inr sub \<Rightarrow> Inr (Subscribe_loop job initiator sub sel (addSubscription (ID job) sub s)))"

text \<open>
  The goroutines in \<open>ws\<close> run, in this order, up to their first \<^verbatim>\<open>select\<close>, each
  with the handle that the client gave it. A goroutine whose call of \<open>Subscribe\<close>
  panics takes the process down: the state is left as it was.
\<close>

fun runWorkers :: "((Initiator \<times> JobSpec) \<times> Subscription) list \<Rightarrow> Service \<Rightarrow> Service" where
  "runWorkers [] s = s"
| "runWorkers (((initiator, job), sub) # ws) s =
     (case Subscribe (Inr sub) [] initiator job s of
        Inl p \<Rightarrow> s
      | Inr (st, s1) \<Rightarrow> runWorkers ws s1)"

subsection \<open>The block callback: \<^verbatim>\<open>Service.GetServiceResquest\<close>\<close>

text \<open>
  Modelled from the spec: \<^verbatim>\<open>types.Events\<close>, \<^verbatim>\<open>Events.Filter\<close> and
  \<^verbatim>\<open>Attributes.GetValue\<close> belong to the Irita SDK, which is not among the sources.
  A batch is a list of "attribute-keyed event records"; \<open>Events_Filter\<close> keeps the
  records of one type, and \<open>GetValue\<close> is the value of the first attribute with the
  given key, the empty string when there is none.
\<close>

datatype Event = Event (EventType: string) (Attributes: "(string \<times> string) list")

definition Events_Filter :: "Event list \<Rightarrow> string \<Rightarrow> Event list" where
  "Events_Filter events typ = filter (\<lambda>e. EventType e = typ) events"

fun GetValue :: "(string \<times> string) list \<Rightarrow> string \<Rightarrow> string" where
  "GetValue [] key = ''''"
| "GetValue ((k, v) # attrs) key = (if k = key then v else GetValue attrs key)"

text \<open>
  The first loop. \<open>unmarshal\<close> stands for \<^verbatim>\<open>json.Unmarshal([]byte(reqIDsStr), &idsTemp)\<close>:
  it gives the contents of \<open>idsTemp\<close> after the call and the error returned, which the
  code discards. \<open>provider\<close> is \<^verbatim>\<open>provider.String()\<close>, the only use the function
  makes of the address it is given.
\<close>

fun matchLoop ::
  "(string \<Rightarrow> string list \<times> string option) \<Rightarrow> Event list \<Rightarrow> string \<Rightarrow> string \<Rightarrow> string list \<Rightarrow> string list"
where
  "matchLoop unmarshal [] serviceName provider ids = ids"
| "matchLoop unmarshal (e # es) serviceName provider ids =
     (let svcName = GetValue (Attributes e) ''service_name'';
          prov = GetValue (Attributes e) ''provider''
      in if svcName = serviceName \<and> prov = provider then
           (let reqIDsStr = GetValue (Attributes e) ''requests'';
                idsTemp = fst (unmarshal reqIDsStr)
            in matchLoop unmarshal es serviceName provider (ids @ idsTemp))
         else matchLoop unmarshal es serviceName provider ids)"

definition matchIDs ::
  "(string \<Rightarrow> string list \<times> string option) \<Rightarrow> Event list \<Rightarrow> string \<Rightarrow> string \<Rightarrow> string list"
where
  "matchIDs unmarshal events serviceName provider =
     matchLoop unmarshal (Events_Filter events ''new_batch_request_provider'') serviceName provider []"

text \<open>
  The second loop. \<open>query\<close> stands for \<^verbatim>\<open>Client.Service.QueryServiceRequest\<close>: the
  value and the error it returns. The code binds the error to \<^verbatim>\<open>_\<close> and appends the
  value.
\<close>

fun resolveLoop ::
  "(string \<Rightarrow> QueryServiceRequestResponse \<times> string option) \<Rightarrow> string list \<Rightarrow>
     QueryServiceRequestResponse list \<Rightarrow> QueryServiceRequestResponse list"
where
  "resolveLoop query [] requests = requests"
| "resolveLoop query (reqID # ids) requests =
     (let request = fst (query reqID) in resolveLoop query ids (requests @ [request]))"

definition GetServiceResquest ::
  "(string \<Rightarrow> QueryServiceRequestResponse \<times> string option) \<Rightarrow>
     (string \<Rightarrow> string list \<times> string option) \<Rightarrow> Event list \<Rightarrow> string \<Rightarrow> string \<Rightarrow>
     QueryServiceRequestResponse list"
where
  "GetServiceResquest query unmarshal events serviceName provider =
     resolveLoop query (matchIDs unmarshal events serviceName provider) []"

subsection \<open>The records an interest selects\<close>

text \<open>
  The two tests that a record passes before the first loop reads its list: the type
  that \<open>Events_Filter\<close> is called with, and the comparison of the two attributes.
\<close>

definition matching :: "string \<Rightarrow> string \<Rightarrow> Event \<Rightarrow> bool" where
  "matching serviceName provider e \<longleftrightarrow>
     EventType e = ''new_batch_request_provider'' \<and>
     GetValue (Attributes e) ''service_name'' = serviceName \<and>
     GetValue (Attributes e) ''provider'' = provider"

subsection \<open>Concrete inputs\<close>

text \<open>
  A job with one Irita-log initiator and the activity window \<open>[0, 100]\<close>, and a job
  with two Irita-log initiators and an open window.
\<close>

definition exInitiator :: Initiator where
  "exInitiator = \<lparr> Type = ''iritalog'', IritaServiceName = ''svcA'', IritaServiceProvider = ''p1'' \<rparr>"

definition exInitiatorB :: Initiator where
  "exInitiatorB = \<lparr> Type = ''iritalog'', IritaServiceName = ''svcB'', IritaServiceProvider = ''p1'' \<rparr>"

definition exJob :: JobSpec where
  "exJob = \<lparr> ID = ''job-1'', Initiators = [exInitiator], StartAt = Some 0, EndAt = Some 100 \<rparr>"

definition exJob2 :: JobSpec where
  "exJob2 = \<lparr> ID = ''job-2'', Initiators = [exInitiator, exInitiatorB], StartAt = None, EndAt = None \<rparr>"

text \<open>
  The service of a started tracker with the handle \<open>7\<close> of \<open>exJob\<close> in its registry,
  and the same service after the tracker was stopped: \<open>done\<close> is closed.
\<close>

definition exRunning :: Service where
  "exRunning = NewService\<lparr>jobSubscriptions := Mapping.update ''job-1'' 7 Mapping.empty, done_ch := ChanOpen\<rparr>"

definition exStopped :: Service where
  "exStopped = NewService\<lparr>jobSubscriptions := Mapping.update ''job-1'' 7 Mapping.empty, done_ch := ChanClosed\<rparr>"

text \<open>
  A new service to which \<open>exJob2\<close> was added twice; a tracker that was never started
  but whose registry holds a handle; a tracker started on a store that holds \<open>exJob\<close>.
\<close>

definition exTwice :: Service where
  "exTwice = Service_AddJob exJob2 (Service_AddJob exJob2 NewService)"

definition exIdle :: IritaServiceTracker where
  "exIdle = \<lparr> Service = addSubscription ''job-1'' 7 NewService, started = False \<rparr>"

definition exLoaded :: IritaServiceTracker where
  "exLoaded = snd (Start [exJob] None NewIritaServiceTracker)"

text \<open>
  What \<^verbatim>\<open>json.Unmarshal\<close> does with the payloads used below, given a pointer to a
  \<^verbatim>\<open>nil\<close> slice of strings. Two arrays of strings decode to their elements. The array
  \<^verbatim>\<open>["req-1",7]\<close> is valid JSON whose second element is not a string: the decoder
  stores the first element, leaves the zero value, the empty string, in the place of the
  second, goes on to the end of the array, and returns the type error. Any other payload
  (none of those used is JSON) fails the syntax check that precedes decoding: the slice
  stays empty and the syntax error is returned.
\<close>

definition exUnmarshal :: "string \<Rightarrow> string list \<times> string option" where
  \<open>exUnmarshal str =
     (if str = ''["req-42"]'' then ([''req-42''], None)
      else if str = ''["req-7","req-42"]'' then ([''req-7'', ''req-42''], None)
      else if str = ''["req-1",7]'' then
        ([''req-1'', ''''], Some ''json: cannot unmarshal number into Go value of type string'')
      else ([], Some ''invalid character''))\<close>

text \<open>
  A lookup that knows the request \<open>req-42\<close> only and returns the empty payload with its
  error for any other.
\<close>

definition exQuery :: "string \<Rightarrow> QueryServiceRequestResponse \<times> string option" where
  "exQuery reqID =
     (if reqID = ''req-42'' then (''detail of req-42'', None)
      else ('''', Some ''request not found''))"

text \<open>
  Four records of the interest \<open>(svcA, p1)\<close>: one that names \<open>req-42\<close>, one that names
  \<open>req-7\<close> and \<open>req-42\<close>, one whose list of requests is not JSON, and one whose list
  has a number after \<open>req-1\<close>.
\<close>

definition exRecord :: Event where
  \<open>exRecord = Event ''new_batch_request_provider''
     [(''service_name'', ''svcA''), (''provider'', ''p1''), (''requests'', ''["req-42"]'')]\<close>

definition exRecord7 :: Event where
  \<open>exRecord7 = Event ''new_batch_request_provider''
     [(''service_name'', ''svcA''), (''provider'', ''p1''), (''requests'', ''["req-7","req-42"]'')]\<close>

definition exBad :: Event where
  "exBad = Event ''new_batch_request_provider''
     [(''service_name'', ''svcA''), (''provider'', ''p1''), (''requests'', ''req-42,'')]"

definition exPartial :: Event where
  \<open>exPartial = Event ''new_batch_request_provider''
     [(''service_name'', ''svcA''), (''provider'', ''p1''), (''requests'', ''["req-1",7]'')]\<close>

subsection \<open>Helper facts about the registry\<close>

lemma delete_absent: "Mapping.lookup m k = None \<Longrightarrow> Mapping.delete k m = m"
  by transfer (auto simp: fun_eq_iff)

text \<open>The gauge after each of the two operations on the registry.\<close>

lemma gauge_addSubscription:
  "numberJobSubscriptions (addSubscription jobID sub s) = numberJobSubscriptions s"
  by (simp add: addSubscription_def)

lemma gauge_RemoveJob:
  "numberJobSubscriptions (snd (Service_RemoveJob jid s)) =
     Mapping.size (jobSubscriptions (snd (Service_RemoveJob jid s)))"
  by (simp add: Service_RemoveJob_def Let_def split: option.splits)

text \<open>After \<open>Service_RemoveJob\<close> the identifier is not in the registry, whatever it returned.\<close>

lemma lookup_after_RemoveJob:
  "Mapping.lookup (jobSubscriptions (snd (Service_RemoveJob jid s))) jid = None"
  by (simp add: Service_RemoveJob_def Let_def split: option.splits)

subsection \<open>Helper facts about the loops\<close>

text \<open>The loop on a list of choices \<open>pre @ post\<close>: run \<open>pre\<close>, then \<open>post\<close> unless returned.\<close>

lemma Subscribe_loop_append:
  "Subscribe_loop job initiator sub (pre @ post) s =
     (case Subscribe_loop job initiator sub pre s of
        (Looping, s1) \<Rightarrow> Subscribe_loop job initiator sub post s1
      | (Returned, s1) \<Rightarrow> (Returned, s1))"
  by (induction job initiator sub pre s rule: Subscribe_loop.induct)
     (simp_all add: Let_def split: sum.splits)

lemma Subscribe_loop_RecvDone:
  "Subscribe_loop job initiator sub (replicate n RecvDone) s =
     (Looping, s\<lparr>Unsubscribed := Unsubscribed s @ replicate n sub\<rparr>)"
  by (induction n arbitrary: s) (simp_all add: replicate_append_same)

lemma resolveLoop_map:
  "resolveLoop query ids requests = requests @ map (\<lambda>reqID. fst (query reqID)) ids"
  by (induction ids arbitrary: requests) (simp_all add: Let_def)

lemma matchLoop_concat:
  "matchLoop unmarshal es serviceName provider ids =
     ids @ concat (map (\<lambda>e. fst (unmarshal (GetValue (Attributes e) ''requests'')))
                    (filter (\<lambda>e. GetValue (Attributes e) ''service_name'' = serviceName \<and>
                                 GetValue (Attributes e) ''provider'' = provider) es))"
  by (induction es arbitrary: ids) (simp_all add: Let_def)

lemma started_foldl_addJob: "started (foldl (\<lambda>t j. addJob j t) ist jobs) = started ist"
  by (induction jobs arbitrary: ist) (simp_all add: addJob_def)

lemma keys_runWorkers:
  "Mapping.keys (jobSubscriptions (runWorkers run s)) =
     Mapping.keys (jobSubscriptions s) \<union> (\<lambda>w. ID (snd (fst w))) ` set run"
  by (induction run s rule: runWorkers.induct)
     (auto simp: Subscribe_def addSubscription_def)

lemma lookup_runWorkers_last:
  "run \<noteq> [] \<Longrightarrow> \<forall>w \<in> set run. ID (snd (fst w)) = jid \<Longrightarrow>
     Mapping.lookup (jobSubscriptions (runWorkers run s)) jid = Some (snd (last run))"
proof (induction run s rule: runWorkers.induct)
  case (1 s)
  then show ?case by simp
next
  case (2 initiator job sub ws s)
  show ?case
  proof (cases "ws = []")
    case True
    with 2 show ?thesis by (simp add: Subscribe_def addSubscription_def)
  next
    case False
    with 2 show ?thesis by (simp add: Subscribe_def)
  qed
qed

lemma matchIDs_concat:
  "matchIDs unmarshal events serviceName provider =
     concat (map (\<lambda>e. fst (unmarshal (GetValue (Attributes e) ''requests'')))
               (filter (matching serviceName provider) events))"
proof -
  have "filter (\<lambda>e. GetValue (Attributes e) ''service_name'' = serviceName \<and>
                     GetValue (Attributes e) ''provider'' = provider)
          (Events_Filter events ''new_batch_request_provider'') =
        filter (matching serviceName provider) events"
    by (auto simp: Events_Filter_def matching_def intro: filter_cong)
  then show ?thesis
    by (simp add: matchIDs_def matchLoop_concat)
qed

section \<open>The claims\<close>

text \<open>
  C1 (as amended). When \<^verbatim>\<open>RunManager.Create\<close> fails for a request that arrives
  inside the activity window, the worker has called the run manager once, logs the error,
  puts nothing into the request memory, and returns: the loop ends there and the choices
  that follow are never taken.
\<close>

theorem C1_trigger_error_returns:
  assumes "Subscribe_loop job initiator sub pre s = (Looping, s1)"
    and "Started job now" and "\<not> Ended job now"
  shows "Subscribe_loop job initiator sub (pre @ RecvRequest request now (Inl err) # rest) s =
           (Returned, s1\<lparr>Created := Created s1 @ [(ID job, initiator)],
                          Logged := Logged s1 @ [err]\<rparr>)"
  using assms by (simp add: Subscribe_loop_append)

theorem C1_trigger_error_returns_witness:
  "Subscribe_loop exJob exInitiator 7 [] exRunning = (Looping, exRunning)
   \<and> Started exJob 5 \<and> \<not> Ended exJob 5
   \<and> Subscribe_loop exJob exInitiator 7
        ([] @ RecvRequest ''req-1'' 5 (Inl ''no funds'') # [RecvDone]) exRunning
     = (Returned, exRunning\<lparr>Created := [(''job-1'', exInitiator)], Logged := [''no funds'']\<rparr>)"
proof -
  have idle: "Subscribe_loop exJob exInitiator 7 [] exRunning = (Looping, exRunning)"
    by simp
  have st: "Started exJob 5"
    by (simp add: exJob_def Started_def)
  have en: "\<not> Ended exJob 5"
    by (simp add: exJob_def Ended_def)
  have "Created exRunning = []" and "Logged exRunning = []" and "ID exJob = ''job-1''"
    by (simp_all add: exRunning_def NewService_def exJob_def)
  with idle st en
    C1_trigger_error_returns [OF idle st en, of "''req-1''" "''no funds''" "[RecvDone]"]
  show ?thesis by simp
qed

text \<open>
  The claim as written fails: after a failed trigger the worker of \<open>exJob\<close> is gone, and
  the request \<open>req-2\<close> that arrives next, inside the window, is never handed to the run
  manager.
\<close>

theorem C1_loop_ends_on_trigger_error:
  "Started exJob 5 \<and> \<not> Ended exJob 5 \<and> Started exJob 6 \<and> \<not> Ended exJob 6
   \<and> Subscribe_loop exJob exInitiator 7
        [RecvRequest ''req-1'' 5 (Inl ''no funds''), RecvRequest ''req-2'' 6 (Inr ''run-2'')]
        exRunning
     = (Returned, exRunning\<lparr>Created := [(''job-1'', exInitiator)], Logged := [''no funds'']\<rparr>)"
  by (simp add: exJob_def exRunning_def NewService_def Started_def Ended_def)

text \<open>
  C2. Once \<^verbatim>\<open>done\<close> is closed the worker should unsubscribe once and leave its loop.
  The \<^verbatim>\<open>case <-s.done\<close> branch unsubscribes and prints "done" but has no
  \<^verbatim>\<open>return\<close>: the worker of \<open>exJob\<close> takes the branch a second time, unsubscribes the
  handle \<open>7\<close> again, then serves a request, and is still in the loop.
\<close>

theorem C2_done_does_not_end_loop:
  "done_ch exStopped = ChanClosed
   \<and> Subscribe_loop exJob exInitiator 7
        [RecvDone, RecvDone, RecvRequest ''req-1'' 5 (Inr ''run-1'')] exStopped
     = (Looping, exStopped\<lparr>Unsubscribed := [7, 7],
                            Created := [(''job-1'', exInitiator)],
                            Memory := [(''run-1'', ''req-1'', ''p1'')]\<rparr>)"
  by (simp add: exJob_def exInitiator_def exStopped_def NewService_def Started_def Ended_def)

text \<open>
  C3 (as amended). The resolver returns one element for every matched identifier, in
  order, whether its lookup succeeded or failed: the element is the value that the lookup
  returned, next to the error if there was one. A failed lookup stops nothing.
\<close>

theorem C3_resolver_one_per_id:
  "GetServiceResquest query unmarshal events serviceName provider =
     map (\<lambda>reqID. fst (query reqID)) (matchIDs unmarshal events serviceName provider)
   \<and> length (GetServiceResquest query unmarshal events serviceName provider) =
     length (matchIDs unmarshal events serviceName provider)"
  by (simp add: GetServiceResquest_def resolveLoop_map)

text \<open>
  The claim as written fails: the lookup of \<open>req-7\<close> fails, and the output still has an
  element for it, the empty payload, before the one of \<open>req-42\<close>.
\<close>

theorem C3_failed_lookup_kept:
  "matchIDs exUnmarshal [exRecord7] ''svcA'' ''p1'' = [''req-7'', ''req-42'']
   \<and> snd (exQuery ''req-7'') = Some ''request not found''
   \<and> snd (exQuery ''req-42'') = None
   \<and> GetServiceResquest exQuery exUnmarshal [exRecord7] ''svcA'' ''p1'' = ['''', ''detail of req-42'']"
  by (simp add: GetServiceResquest_def matchIDs_def Events_Filter_def exRecord7_def
        exUnmarshal_def exQuery_def)

text \<open>
  C4 (as amended). The matcher returns, in the order of the batch, the concatenation of
  the identifier lists of the "new_batch_request_provider" records whose service name
  and provider are those of the interest; an identifier that occurs twice is returned
  twice. The error of decoding is never looked at: a record of the interest contributes,
  at its place between what the records before it and the records after it contribute,
  exactly the list that decoding left, also when decoding reported an error; a record
  whose decoding left nothing contributes nothing, and the records around it are read as
  if it were not there.
\<close>

theorem C4_matcher_concatenates:
  "matchIDs unmarshal events serviceName provider =
     concat (map (\<lambda>e. fst (unmarshal (GetValue (Attributes e) ''requests'')))
               (filter (matching serviceName provider) events))
   \<and> (fst (unmarshal (GetValue (Attributes e) ''requests'')) = [] \<longrightarrow>
        matchIDs unmarshal (earlier @ e # later) serviceName provider =
          matchIDs unmarshal (earlier @ later) serviceName provider)
   \<and> (matching serviceName provider e \<longrightarrow>
        matchIDs unmarshal (earlier @ e # later) serviceName provider =
          matchIDs unmarshal earlier serviceName provider @
          fst (unmarshal (GetValue (Attributes e) ''requests'')) @
          matchIDs unmarshal later serviceName provider)"
  by (simp add: matchIDs_concat)

theorem C4_matcher_concatenates_witness:
  "snd (exUnmarshal (GetValue (Attributes exBad) ''requests'')) = Some ''invalid character''
   \<and> fst (exUnmarshal (GetValue (Attributes exBad) ''requests'')) = []
   \<and> matching ''svcA'' ''p1'' exBad
   \<and> matchIDs exUnmarshal ([exRecord] @ exBad # [exRecord7]) ''svcA'' ''p1'' =
       [''req-42'', ''req-7'', ''req-42'']
   \<and> snd (exUnmarshal (GetValue (Attributes exPartial) ''requests'')) =
       Some ''json: cannot unmarshal number into Go value of type string''
   \<and> matching ''svcA'' ''p1'' exPartial
   \<and> matchIDs exUnmarshal ([exRecord] @ exPartial # [exRecord7]) ''svcA'' ''p1'' =
       [''req-42'', ''req-1'', '''', ''req-7'', ''req-42'']"
proof -
  have bad: "exUnmarshal (GetValue (Attributes exBad) ''requests'') = ([], Some ''invalid character'')"
    by (simp add: exBad_def exUnmarshal_def)
  have interest: "matching ''svcA'' ''p1'' exBad"
    by (simp add: matching_def exBad_def)
  have rest: "matchIDs exUnmarshal ([exRecord] @ [exRecord7]) ''svcA'' ''p1'' =
      [''req-42'', ''req-7'', ''req-42'']"
    by (simp add: matchIDs_def Events_Filter_def exRecord_def exRecord7_def exUnmarshal_def)
  have empty: "fst (exUnmarshal (GetValue (Attributes exBad) ''requests'')) = []"
    by (simp add: bad)
  note skip = C4_matcher_concatenates [where unmarshal = exUnmarshal and e = exBad
      and earlier = "[exRecord]" and later = "[exRecord7]" and serviceName = "''svcA''"
      and provider = "''p1''", THEN conjunct2, THEN conjunct1, rule_format, OF empty]
  have skipped: "matchIDs exUnmarshal ([exRecord] @ exBad # [exRecord7]) ''svcA'' ''p1'' =
      [''req-42'', ''req-7'', ''req-42'']"
    by (simp only: skip rest)
  have partial: "exUnmarshal (GetValue (Attributes exPartial) ''requests'') =
      ([''req-1'', ''''], Some ''json: cannot unmarshal number into Go value of type string'')"
    by (simp add: exPartial_def exUnmarshal_def)
  have interest_partial: "matching ''svcA'' ''p1'' exPartial"
    by (simp add: matching_def exPartial_def)
  have before: "matchIDs exUnmarshal [exRecord] ''svcA'' ''p1'' = [''req-42'']"
    by (simp add: matchIDs_def Events_Filter_def exRecord_def exUnmarshal_def)
  have after: "matchIDs exUnmarshal [exRecord7] ''svcA'' ''p1'' = [''req-7'', ''req-42'']"
    by (simp add: matchIDs_def Events_Filter_def exRecord7_def exUnmarshal_def)
  note place = C4_matcher_concatenates [where unmarshal = exUnmarshal and e = exPartial
      and earlier = "[exRecord]" and later = "[exRecord7]" and serviceName = "''svcA''"
      and provider = "''p1''", THEN conjunct2, THEN conjunct2, rule_format, OF interest_partial]
  have kept: "matchIDs exUnmarshal ([exRecord] @ exPartial # [exRecord7]) ''svcA'' ''p1'' =
      [''req-42'', ''req-1'', '''', ''req-7'', ''req-42'']"
    unfolding place before after partial by simp
  from bad interest skipped partial interest_partial kept show ?thesis
    by simp
qed

text \<open>
  The claim as written fails twice. Two records of one batch name \<open>req-42\<close>, and the
  matcher returns it twice. And the list of \<open>exPartial\<close> fails to decode, with the type
  error, yet the record contributes the two identifiers that decoding left, \<open>req-1\<close> and
  the empty string, and the resolver looks both up.
\<close>

theorem C4_duplicates_and_failed_decode_kept:
  "matching ''svcA'' ''p1'' exRecord
   \<and> matchIDs exUnmarshal [exRecord, exRecord] ''svcA'' ''p1'' = [''req-42'', ''req-42'']
   \<and> \<not> distinct (matchIDs exUnmarshal [exRecord, exRecord] ''svcA'' ''p1'')
   \<and> matching ''svcA'' ''p1'' exPartial
   \<and> snd (exUnmarshal (GetValue (Attributes exPartial) ''requests'')) =
       Some ''json: cannot unmarshal number into Go value of type string''
   \<and> matchIDs exUnmarshal [exPartial] ''svcA'' ''p1'' = [''req-1'', '''']
   \<and> length (GetServiceResquest exQuery exUnmarshal [exPartial] ''svcA'' ''p1'') = 2"
  by (simp add: GetServiceResquest_def matchIDs_def Events_Filter_def exRecord_def
        exPartial_def exUnmarshal_def exQuery_def matching_def)

text \<open>
  C5. The gauge should follow the size of the registry after every change.
  \<open>Service_RemoveJob\<close> sets it; \<open>addSubscription\<close> does not: after the first handle is
  registered in a new service the registry has one entry and the gauge still reads zero.
\<close>

theorem C5_register_leaves_gauge:
  "Mapping.size (jobSubscriptions (addSubscription ''job-1'' 7 NewService)) = 1
   \<and> numberJobSubscriptions (addSubscription ''job-1'' 7 NewService) = 0
   \<and> Subscribe (Inr 7) [] exInitiator exJob NewService
       = Inr (Looping, NewService\<lparr>jobSubscriptions := Mapping.update ''job-1'' 7 Mapping.empty\<rparr>)"
  by (simp add: addSubscription_def NewService_def Mapping.size_def Subscribe_def exJob_def)

text \<open>
  C6 (as amended). The registry is keyed by the identifier of the job alone. When a job
  with at least one Irita-log initiator is added twice, each call starts one worker per
  initiator; once these workers, in whatever order they run, have registered their
  handles, the registry holds exactly one handle under the identifier of the job (the
  one registered last) and no other new key, however many initiators the job has: its
  size is what one registration of the job would have made it.
\<close>

theorem C6_AddJob_twice_one_handle_per_job:
  assumes "InitiatorsFor job InitiatorIritaLog \<noteq> []"
    and "mset (map fst run) =
           mset (map (\<lambda>initiator. (initiator, job)) (InitiatorsFor job InitiatorIritaLog) @
                 map (\<lambda>initiator. (initiator, job)) (InitiatorsFor job InitiatorIritaLog))"
  shows "Spawned (Service_AddJob job (Service_AddJob job s)) =
           Spawned s @
             map (\<lambda>initiator. (initiator, job)) (InitiatorsFor job InitiatorIritaLog) @
             map (\<lambda>initiator. (initiator, job)) (InitiatorsFor job InitiatorIritaLog)
       \<and> Mapping.keys (jobSubscriptions (runWorkers run (Service_AddJob job (Service_AddJob job s)))) =
           insert (ID job) (Mapping.keys (jobSubscriptions s))
       \<and> Mapping.lookup (jobSubscriptions (runWorkers run (Service_AddJob job (Service_AddJob job s))))
           (ID job) = Some (snd (last run))
       \<and> Mapping.size (jobSubscriptions (runWorkers run (Service_AddJob job (Service_AddJob job s)))) =
           card (insert (ID job) (Mapping.keys (jobSubscriptions s)))"
proof -
  let ?ws = "map (\<lambda>initiator. (initiator, job)) (InitiatorsFor job InitiatorIritaLog)"
  let ?added = "Service_AddJob job (Service_AddJob job s)"
  have spawned: "Spawned ?added = Spawned s @ ?ws @ ?ws"
    by (simp add: Service_AddJob_def)
  have registry: "jobSubscriptions ?added = jobSubscriptions s"
    by (simp add: Service_AddJob_def)
  have "set (map fst run) = set (?ws @ ?ws)"
    using assms(2) by (rule mset_eq_setD)
  then have workers: "fst ` set run = set ?ws"
    by simp
  have nonempty: "run \<noteq> []"
    using workers assms(1) by auto
  have same_job: "ID (snd (fst w)) = ID job" if "w \<in> set run" for w
  proof -
    from that workers have "fst w \<in> set ?ws" by blast
    then show ?thesis by auto
  qed
  have "(\<lambda>w. ID (snd (fst w))) ` set run = {ID job}"
    using nonempty same_job by (auto simp: image_iff intro: last_in_set)
  then have keys: "Mapping.keys (jobSubscriptions (runWorkers run ?added)) =
      insert (ID job) (Mapping.keys (jobSubscriptions s))"
    by (simp add: keys_runWorkers registry)
  have last: "Mapping.lookup (jobSubscriptions (runWorkers run ?added)) (ID job) =
      Some (snd (last run))"
    using nonempty same_job by (intro lookup_runWorkers_last) auto
  have size: "Mapping.size (jobSubscriptions (runWorkers run ?added)) =
      card (insert (ID job) (Mapping.keys (jobSubscriptions s)))"
    using keys by (simp add: Mapping.size_def)
  from spawned keys last size show ?thesis by blast
qed

theorem C6_AddJob_twice_one_handle_per_job_witness:
  "InitiatorsFor exJob InitiatorIritaLog = [exInitiator]
   \<and> Spawned (Service_AddJob exJob (Service_AddJob exJob NewService)) =
       [(exInitiator, exJob), (exInitiator, exJob)]
   \<and> Mapping.keys (jobSubscriptions (runWorkers [((exInitiator, exJob), 2), ((exInitiator, exJob), 1)]
        (Service_AddJob exJob (Service_AddJob exJob NewService)))) = {''job-1''}
   \<and> Mapping.lookup (jobSubscriptions (runWorkers [((exInitiator, exJob), 2), ((exInitiator, exJob), 1)]
        (Service_AddJob exJob (Service_AddJob exJob NewService)))) ''job-1'' = Some 1
   \<and> Mapping.size (jobSubscriptions (runWorkers [((exInitiator, exJob), 2), ((exInitiator, exJob), 1)]
        (Service_AddJob exJob (Service_AddJob exJob NewService)))) = 1"
proof -
  let ?run = "[((exInitiator, exJob), 2::nat), ((exInitiator, exJob), 1)]"
  have inits: "InitiatorsFor exJob InitiatorIritaLog = [exInitiator]"
    by (simp add: InitiatorsFor_def InitiatorIritaLog_def exJob_def exInitiator_def)
  then have ne: "InitiatorsFor exJob InitiatorIritaLog \<noteq> []"
    by simp
  have run: "mset (map fst ?run) =
      mset (map (\<lambda>initiator. (initiator, exJob)) (InitiatorsFor exJob InitiatorIritaLog) @
            map (\<lambda>initiator. (initiator, exJob)) (InitiatorsFor exJob InitiatorIritaLog))"
    by (simp add: inits)
  have before: "Spawned NewService = []" "Mapping.keys (jobSubscriptions NewService) = {}"
    by (simp_all add: NewService_def)
  have "ID exJob = ''job-1''"
    by (simp add: exJob_def)
  with inits before C6_AddJob_twice_one_handle_per_job [OF ne run, of NewService]
  show ?thesis by simp
qed

text \<open>
  The claim as written fails: \<open>exJob2\<close> has two interests and is added twice, four
  workers register their handles \<open>1\<close>, \<open>2\<close>, \<open>3\<close>, \<open>4\<close>, and the registry holds one
  handle, not one for each of the two (job, interest) pairs.
\<close>

theorem C6_two_interests_one_handle:
  "InitiatorsFor exJob2 InitiatorIritaLog = [exInitiator, exInitiatorB]
   \<and> Spawned exTwice =
       [(exInitiator, exJob2), (exInitiatorB, exJob2), (exInitiator, exJob2), (exInitiatorB, exJob2)]
   \<and> Mapping.size (jobSubscriptions (runWorkers (zip (Spawned exTwice) [1, 2, 3, 4]) exTwice)) = 1
   \<and> Mapping.lookup (jobSubscriptions (runWorkers (zip (Spawned exTwice) [1, 2, 3, 4]) exTwice))
       ''job-2'' = Some 4"
proof -
  have inits: "InitiatorsFor exJob2 InitiatorIritaLog = [exInitiator, exInitiatorB]"
    by (simp add: InitiatorsFor_def InitiatorIritaLog_def exJob2_def exInitiator_def
          exInitiatorB_def)
  have twice: "exTwice =
      NewService\<lparr>Spawned := [(exInitiator, exJob2), (exInitiatorB, exJob2),
                               (exInitiator, exJob2), (exInitiatorB, exJob2)]\<rparr>"
    by (simp add: exTwice_def Service_AddJob_def inits NewService_def)
  have "ID exJob2 = ''job-2''"
    by (simp add: exJob2_def)
  then show ?thesis
    by (simp add: inits twice Subscribe_def addSubscription_def NewService_def Mapping.size_def)
qed

text \<open>
  C7. A worker that takes a request from its channel at a moment when the job has not
  started or has ended does not call the run manager for it and returns at once: the
  state is the one the loop had reached before this request (so \<open>Created\<close> has no new
  entry), and the choices that follow are never taken.
\<close>

theorem C7_outside_window_returns:
  assumes "Subscribe_loop job initiator sub pre s = (Looping, s1)"
    and "\<not> Started job now \<or> Ended job now"
  shows "Subscribe_loop job initiator sub (pre @ RecvRequest request now res # rest) s = (Returned, s1)"
  using assms by (simp add: Subscribe_loop_append)

theorem C7_outside_window_returns_witness:
  "Subscribe_loop exJob exInitiator 7 [RecvRequest ''req-1'' 5 (Inr ''run-1'')] NewService
     = (Looping, NewService\<lparr>Created := [(''job-1'', exInitiator)],
                             Memory := [(''run-1'', ''req-1'', ''p1'')]\<rparr>)
   \<and> Ended exJob 101
   \<and> Subscribe_loop exJob exInitiator 7
        ([RecvRequest ''req-1'' 5 (Inr ''run-1'')] @
           RecvRequest ''req-2'' 101 (Inr ''run-2'') # [RecvRequest ''req-3'' 101 (Inr ''run-3'')])
        NewService
     = (Returned, NewService\<lparr>Created := [(''job-1'', exInitiator)],
                              Memory := [(''run-1'', ''req-1'', ''p1'')]\<rparr>)"
proof -
  have run: "Subscribe_loop exJob exInitiator 7 [RecvRequest ''req-1'' 5 (Inr ''run-1'')] NewService
     = (Looping, NewService\<lparr>Created := [(''job-1'', exInitiator)],
                             Memory := [(''run-1'', ''req-1'', ''p1'')]\<rparr>)"
    by (simp add: exJob_def exInitiator_def NewService_def Started_def Ended_def)
  have out: "\<not> Started exJob 101 \<or> Ended exJob 101"
    by (simp add: exJob_def Ended_def)
  have "Ended exJob 101"
    by (simp add: exJob_def Ended_def)
  with run C7_outside_window_returns [OF run out] show ?thesis
    by simp
qed

text \<open>
  C8. \<open>RemoveJob\<close> for an identifier that the registry does not hold fails with the
  not-found error, leaves the registry as it was (the same map, hence the same size and
  the same handles) and makes no call to \<^verbatim>\<open>Unsubscribe\<close>.
\<close>

theorem C8_RemoveJob_unknown:
  assumes "Mapping.lookup (jobSubscriptions s) jid = None"
  shows "fst (Service_RemoveJob jid s) = Some (JobNotFound jid)
       \<and> jobSubscriptions (snd (Service_RemoveJob jid s)) = jobSubscriptions s
       \<and> Mapping.size (jobSubscriptions (snd (Service_RemoveJob jid s))) = Mapping.size (jobSubscriptions s)
       \<and> Unsubscribed (snd (Service_RemoveJob jid s)) = Unsubscribed s"
  using assms by (simp add: Service_RemoveJob_def delete_absent)

theorem C8_RemoveJob_unknown_witness:
  "Mapping.lookup (jobSubscriptions exStopped) ''job-9'' = None
   \<and> fst (Service_RemoveJob ''job-9'' exStopped) = Some (JobNotFound ''job-9'')
   \<and> jobSubscriptions (snd (Service_RemoveJob ''job-9'' exStopped)) = jobSubscriptions exStopped
   \<and> Mapping.size (jobSubscriptions (snd (Service_RemoveJob ''job-9'' exStopped))) = 1
   \<and> Unsubscribed (snd (Service_RemoveJob ''job-9'' exStopped)) = []"
proof -
  have absent: "Mapping.lookup (jobSubscriptions exStopped) ''job-9'' = None"
    by (simp add: exStopped_def NewService_def)
  have "Mapping.size (jobSubscriptions exStopped) = 1"
    by (simp add: exStopped_def NewService_def Mapping.size_def)
  moreover have "Unsubscribed exStopped = []"
    by (simp add: exStopped_def NewService_def)
  ultimately show ?thesis
    using absent C8_RemoveJob_unknown [OF absent] by simp
qed

text \<open>
  C9. \<open>Start\<close> on a started tracker fails with the already-started error and changes
  nothing, so a second \<open>Start\<close> right after a first one fails whatever the store
  answers, and leaves the workers of the first where they are. \<open>Stop\<close> on a tracker
  that is not started changes nothing and closes no channel, so a second \<open>Stop\<close> right
  after a first one is the identity.
\<close>

theorem C9_Start_twice_Stop_twice:
  "(started ist \<longrightarrow> Start jobs storeErr ist = (Some AlreadyStarted, ist))
   \<and> (\<not> started ist \<longrightarrow>
        Start jobsB storeErrB (snd (Start jobs storeErr ist)) =
          (Some AlreadyStarted, snd (Start jobs storeErr ist)))
   \<and> (\<not> started ist \<longrightarrow> Stop ist = Inr ist)
   \<and> (Stop ist = Inr ist_after \<longrightarrow> Stop ist_after = Inr ist_after)"
proof -
  have again: "Start js e t = (Some AlreadyStarted, t)" if "started t" for js e t
    using that by (simp add: Start_def)
  have first: "started (snd (Start jobs storeErr ist))"
    by (simp add: Start_def Service_Start_def started_foldl_addJob)
  have idle: "Stop t = Inr t" if "\<not> started t" for t
    using that by (simp add: Stop_def)
  have "\<not> started ist_after" if "Stop ist = Inr ist_after"
    using that by (auto simp: Stop_def split: if_splits sum.splits)
  with again first idle show ?thesis by blast
qed

theorem C9_Start_twice_Stop_twice_witness:
  "started exLoaded
   \<and> Start [exJob2] None exLoaded = (Some AlreadyStarted, exLoaded)
   \<and> \<not> started NewIritaServiceTracker
   \<and> Start [exJob2] None (snd (Start [exJob] None NewIritaServiceTracker)) =
       (Some AlreadyStarted, exLoaded)
   \<and> Stop NewIritaServiceTracker = Inr NewIritaServiceTracker
   \<and> Stop exLoaded = Inr (exLoaded\<lparr>Service := (Service exLoaded)\<lparr>done_ch := ChanClosed\<rparr>, started := False\<rparr>)
   \<and> Stop (exLoaded\<lparr>Service := (Service exLoaded)\<lparr>done_ch := ChanClosed\<rparr>, started := False\<rparr>) =
       Inr (exLoaded\<lparr>Service := (Service exLoaded)\<lparr>done_ch := ChanClosed\<rparr>, started := False\<rparr>)"
proof -
  let ?stopped = "exLoaded\<lparr>Service := (Service exLoaded)\<lparr>done_ch := ChanClosed\<rparr>, started := False\<rparr>"
  have start: "Start [exJob] None NewIritaServiceTracker =
      (None, \<lparr> Service = Service_AddJob exJob (NewService\<lparr>done_ch := ChanOpen\<rparr>), started = True \<rparr>)"
    by (simp add: Start_def Service_Start_def addJob_def NewIritaServiceTracker_def)
  have st: "started exLoaded"
    by (simp add: exLoaded_def start)
  have new: "\<not> started NewIritaServiceTracker"
    by (simp add: NewIritaServiceTracker_def)
  have stop: "Stop exLoaded = Inr ?stopped"
    by (simp add: Stop_def Service_Stop_def exLoaded_def start Service_AddJob_def)
  have loaded: "snd (Start [exJob] None NewIritaServiceTracker) = exLoaded"
    by (simp add: exLoaded_def)
  note a = C9_Start_twice_Stop_twice [where ist = exLoaded and jobs = "[exJob2]"
      and storeErr = None and ist_after = ?stopped]
  note b = C9_Start_twice_Stop_twice [where ist = NewIritaServiceTracker and jobs = "[exJob]"
      and storeErr = None and jobsB = "[exJob2]" and storeErrB = None]
  from a st have 1: "Start [exJob2] None exLoaded = (Some AlreadyStarted, exLoaded)"
    by blast
  from b new have 2: "Start [exJob2] None (snd (Start [exJob] None NewIritaServiceTracker)) =
      (Some AlreadyStarted, exLoaded)"
    unfolding loaded by blast
  from b new have 3: "Stop NewIritaServiceTracker = Inr NewIritaServiceTracker"
    by blast
  from a stop have 4: "Stop ?stopped = Inr ?stopped"
    by blast
  from st new stop 1 2 3 4 show ?thesis
    by blast
qed

text \<open>
  C10. \<open>RemoveJob\<close> of the tracker does not read the started flag: it does to the
  registry what it would do with the flag set the other way. On a registered identifier
  it deletes the entry, sets the gauge and unsubscribes the handle; on an unknown one it
  returns the not-found error. \<open>AddJob\<close> on a tracker that is not started does nothing.
\<close>

theorem C10_RemoveJob_not_guarded:
  "RemoveJob jid (ist\<lparr>started := b\<rparr>) =
     (fst (RemoveJob jid ist), (snd (RemoveJob jid ist))\<lparr>started := b\<rparr>)
   \<and> (Mapping.lookup (jobSubscriptions (Service ist)) jid = Some sub \<longrightarrow>
        RemoveJob jid ist =
          (None, ist\<lparr>Service := (Service ist)
             \<lparr>jobSubscriptions := Mapping.delete jid (jobSubscriptions (Service ist)),
              numberJobSubscriptions := Mapping.size (Mapping.delete jid (jobSubscriptions (Service ist))),
              Unsubscribed := Unsubscribed (Service ist) @ [sub]\<rparr>\<rparr>))
   \<and> (Mapping.lookup (jobSubscriptions (Service ist)) jid = None \<longrightarrow>
        fst (RemoveJob jid ist) = Some (JobNotFound jid))
   \<and> (\<not> started ist \<longrightarrow> AddJob job ist = ist)"
  by (simp add: RemoveJob_def Service_RemoveJob_def AddJob_def Let_def split: option.splits)

theorem C10_RemoveJob_not_guarded_witness:
  "\<not> started exIdle
   \<and> Mapping.lookup (jobSubscriptions (Service exIdle)) ''job-1'' = Some 7
   \<and> RemoveJob ''job-1'' exIdle = (None, \<lparr> Service = NewService\<lparr>Unsubscribed := [7]\<rparr>, started = False \<rparr>)
   \<and> Mapping.lookup (jobSubscriptions (Service exIdle)) ''job-9'' = None
   \<and> fst (RemoveJob ''job-9'' exIdle) = Some (JobNotFound ''job-9'')
   \<and> AddJob exJob exIdle = exIdle"
proof -
  have idle: "\<not> started exIdle"
    by (simp add: exIdle_def)
  have found: "Mapping.lookup (jobSubscriptions (Service exIdle)) ''job-1'' = Some 7"
    by (simp add: exIdle_def addSubscription_def)
  have absent: "Mapping.lookup (jobSubscriptions (Service exIdle)) ''job-9'' = None"
    by (simp add: exIdle_def addSubscription_def NewService_def)
  have state: "exIdle\<lparr>Service := (Service exIdle)
             \<lparr>jobSubscriptions := Mapping.delete ''job-1'' (jobSubscriptions (Service exIdle)),
              numberJobSubscriptions := Mapping.size (Mapping.delete ''job-1'' (jobSubscriptions (Service exIdle))),
              Unsubscribed := Unsubscribed (Service exIdle) @ [7]\<rparr>\<rparr>
      = \<lparr> Service = NewService\<lparr>Unsubscribed := [7]\<rparr>, started = False \<rparr>"
    by (simp add: exIdle_def addSubscription_def NewService_def delete_update)
  note a = C10_RemoveJob_not_guarded [where jid = "''job-1''" and ist = exIdle and sub = 7
      and job = exJob]
  note b = C10_RemoveJob_not_guarded [where jid = "''job-9''" and ist = exIdle and job = exJob]
  from a found have 1: "RemoveJob ''job-1'' exIdle =
      (None, \<lparr> Service = NewService\<lparr>Unsubscribed := [7]\<rparr>, started = False \<rparr>)"
    unfolding state by blast
  from b absent have 2: "fst (RemoveJob ''job-9'' exIdle) = Some (JobNotFound ''job-9'')"
    by blast
  from a idle have 3: "AddJob exJob exIdle = exIdle"
    by blast
  from idle found absent 1 2 3 show ?thesis
    by blast
qed

end
